theory Spec2Isabelle
  imports Complex_Main "HOL-Library.AList"
begin

section \<open>Python values\<close>

text \<open>
  A Python \<open>str\<close> is a sequence of Unicode code points; \<open>lit\<close> reads an ASCII literal
  of the source as such a sequence.
\<close>

type_synonym ustr = "nat list"

definition lit :: "string \<Rightarrow> ustr" where
  "lit s = map of_char s"

text \<open>
  \<open>str.strip()\<close> without argument removes leading and trailing white space, which for
  a \<open>str\<close> is the set of code points below.
\<close>

definition isspace :: "nat \<Rightarrow> bool" where
  "isspace c = (c \<in> {9, 10, 11, 12, 13, 28, 29, 30, 31, 32, 133, 160, 5760,
                       8232, 8233, 8239, 8287, 12288} \<or> (8192 \<le> c \<and> c \<le> 8202))"

definition strip :: "ustr \<Rightarrow> ustr" where
  "strip s = rev (dropWhile isspace (rev (dropWhile isspace s)))"

definition startswith :: "ustr \<Rightarrow> ustr \<Rightarrow> bool" where
  "startswith s p = (take (length p) s = p)"

text \<open>\<open>sub in s\<close> for two strings: \<open>sub\<close> occurs in \<open>s\<close> as a contiguous run.\<close>

fun contains :: "ustr \<Rightarrow> ustr \<Rightarrow> bool" where
  "contains [] sub = (sub = [])"
| "contains (c # s) sub = (startswith (c # s) sub \<or> contains s sub)"

text \<open>
  What \<open>json.loads\<close> produces. A float is kept as the number it denotes (the program
  only tests it for zero and copies it); a dict is an association list in insertion
  order, read with \<open>map_of\<close>.
\<close>

datatype pyfloat = Finite rat | Infinite bool | NaN

datatype json =
    JNull
  | JBool bool
  | JInt int
  | JFloat pyfloat
  | JStr ustr
  | JArr "json list"
  | JObj "(ustr \<times> json) list"

type_synonym dict = "(ustr \<times> json) list"

datatype exn = AttributeError | TypeError | KeyError

fun truthy :: "json \<Rightarrow> bool" where
  "truthy JNull = False"
| "truthy (JBool b) = b"
| "truthy (JInt n) = (n \<noteq> 0)"
| "truthy (JFloat f) = (f \<noteq> Finite 0)"
| "truthy (JStr s) = (s \<noteq> [])"
| "truthy (JArr xs) = (xs \<noteq> [])"
| "truthy (JObj d) = (d \<noteq> [])"

text \<open>\<open>a or b\<close> on values.\<close>

definition py_or :: "json \<Rightarrow> json \<Rightarrow> json" where
  "py_or a b = (if truthy a then a else b)"

text \<open>
  A value that is a \<open>str\<close> or \<open>None\<close> (an environment variable, a header, a query
  parameter): truth, \<open>not\<close> and \<open>or\<close>.
\<close>

definition truthy_opt :: "ustr option \<Rightarrow> bool" where
  "truthy_opt v = (case v of None \<Rightarrow> False | Some s \<Rightarrow> s \<noteq> [])"

definition py_not :: "ustr option \<Rightarrow> bool" where
  "py_not v = (if truthy_opt v then False else True)"

definition or_opt :: "ustr option \<Rightarrow> ustr option \<Rightarrow> ustr option" where
  "or_opt a b = (if truthy_opt a then a else b)"

text \<open>\<open>x.get(k)\<close>: only a dict has the method.\<close>

definition py_get :: "json \<Rightarrow> ustr \<Rightarrow> exn + json" where
  "py_get x k =
     (case x of
        JObj d \<Rightarrow> Inr (case map_of d k of None \<Rightarrow> JNull | Some v \<Rightarrow> v)
      | _ \<Rightarrow> Inl AttributeError)"

text \<open>\<open>x.strip()\<close>: only a \<open>str\<close> has the method.\<close>

definition py_strip :: "json \<Rightarrow> exn + ustr" where
  "py_strip x = (case x of JStr s \<Rightarrow> Inr (strip s) | _ \<Rightarrow> Inl AttributeError)"

text \<open>
  \<open>k in x\<close> for a string \<open>k\<close>: key membership in a dict, element membership in a list,
  substring in a string; any other value is not iterable.
\<close>

definition py_in :: "ustr \<Rightarrow> json \<Rightarrow> exn + bool" where
  "py_in k x =
     (case x of
        JObj d \<Rightarrow> Inr (map_of d k \<noteq> None)
      | JArr xs \<Rightarrow> Inr (JStr k \<in> set xs)
      | JStr s \<Rightarrow> Inr (contains s k)
      | _ \<Rightarrow> Inl TypeError)"

text \<open>\<open>x[k]\<close> for a string \<open>k\<close>.\<close>

definition py_getitem :: "json \<Rightarrow> ustr \<Rightarrow> exn + json" where
  "py_getitem x k =
     (case x of
        JObj d \<Rightarrow> (case map_of d k of None \<Rightarrow> Inl KeyError | Some v \<Rightarrow> Inr v)
      | _ \<Rightarrow> Inl TypeError)"

definition bind_exn :: "exn + 'a \<Rightarrow> ('a \<Rightarrow> exn + 'b) \<Rightarrow> exn + 'b" where
  "bind_exn m f = (case m of Inl e \<Rightarrow> Inl e | Inr x \<Rightarrow> f x)"

section \<open>Configuration, requests and responses\<close>

record config =
  GOOGLE_API_KEY :: "ustr option"
  INTERNAL_API_KEY :: "ustr option"

text \<open>
  The two settings as read at start-up from the environment, each with its fallback
  variable.
\<close>

definition load_config :: "(ustr \<rightharpoonup> ustr) \<Rightarrow> config" where
  "load_config getenv =
     \<lparr> GOOGLE_API_KEY = or_opt (getenv (lit ''GOOGLE_API_KEY'')) (getenv (lit ''GOOGLE_API_TOKEN'')),
       INTERNAL_API_KEY = or_opt (getenv (lit ''INTERNAL_API_KEY'')) (getenv (lit ''API_AUTH_TOKEN'')) \<rparr>"

text \<open>
  The body of a request as \<open>get_json(silent=True)\<close> sees it: no JSON body (none sent, or
  not declared as JSON), bytes that do not parse, or the parsed value. With
  \<open>silent=True\<close> the first two give \<open>None\<close> instead of an error response.
\<close>

datatype raw_body = Absent | Malformed | Parsed json

record request =
  req_method :: ustr
  path :: ustr
  headers :: "ustr \<rightharpoonup> ustr"
  args :: "ustr \<rightharpoonup> ustr"
  json_body :: raw_body

definition get_json_silent :: "request \<Rightarrow> json" where
  "get_json_silent req =
     (case json_body req of Absent \<Rightarrow> JNull | Malformed \<Rightarrow> JNull | Parsed j \<Rightarrow> j)"

text \<open>\<open>get_json(silent=True) or {}\<close>, as both \<open>_check_internal_auth\<close> and \<open>generate\<close> read the body.\<close>

definition request_data :: "request \<Rightarrow> json" where
  "request_data req = py_or (get_json_silent req) (JObj [])"

datatype content = Text ustr | JsonBody json

record response =
  status :: nat
  payload :: content

text \<open>\<open>jsonify(d), code\<close>.\<close>

definition jsonify :: "dict \<Rightarrow> nat \<Rightarrow> response" where
  "jsonify d code = \<lparr> status = code, payload = JsonBody (JObj d) \<rparr>"

section \<open>The authentication gate\<close>

definition unauthorized :: response where
  "unauthorized =
     jsonify
       [(lit ''error'', JStr (lit ''Invalid or missing internal API key'')),
        (lit ''hint'', JStr (lit
          ''Provide Authorization: Bearer <INTERNAL_API_KEY> or x-api-key, or api_key in query/body''))]
       401"

text \<open>
  The candidate each channel yields. A header or query value is a \<open>str\<close> when present,
  so the \<open>isinstance\<close> tests of the source only matter for the body field.
\<close>

definition bearer :: "request \<Rightarrow> ustr option" where
  "bearer req =
     (let auth_header = (case headers req (lit ''Authorization'') of None \<Rightarrow> [] | Some h \<Rightarrow> h)
      in if startswith auth_header (lit ''Bearer '') then Some (drop 7 auth_header) else None)"

definition x_api_key :: "request \<Rightarrow> ustr option" where
  "x_api_key req = headers req (lit ''x-api-key'')"

definition query_key :: "request \<Rightarrow> ustr option" where
  "query_key req = args req (lit ''api_key'')"

definition body_key :: "request \<Rightarrow> exn + ustr option" where
  "body_key req =
     bind_exn (py_get (request_data req) (lit ''api_key''))
       (\<lambda>v. Inr (case v of JStr s \<Rightarrow> Some s | _ \<Rightarrow> None))"

definition provided :: "request \<Rightarrow> exn + ustr option" where
  "provided req =
     bind_exn (body_key req)
       (\<lambda>b. Inr (or_opt (or_opt (or_opt (bearer req) (x_api_key req)) (query_key req)) b))"

text \<open>
  \<open>_check_internal_auth\<close>: \<open>Inr None\<close> lets the request through, \<open>Inr (Some r)\<close> is the
  error response, \<open>Inl e\<close> an exception that leaves the function.
\<close>

definition check_internal_auth :: "config \<Rightarrow> request \<Rightarrow> exn + response option" where
  "check_internal_auth cfg req =
     (if py_not (INTERNAL_API_KEY cfg) then Inr None
      else if req_method req = lit ''OPTIONS'' \<or> path req = lit ''/health'' then Inr None
      else bind_exn (provided req)
        (\<lambda>p. if py_not p \<or> p \<noteq> INTERNAL_API_KEY cfg then Inr (Some unauthorized)
              else Inr None))"

section \<open>The generate handler\<close>

definition get_mode :: "json \<Rightarrow> exn + ustr" where
  "get_mode data =
     bind_exn (py_get data (lit ''mode'')) (\<lambda>v. py_strip (py_or v (JStr (lit ''prompt''))))"

definition get_inputs :: "json \<Rightarrow> exn + ustr" where
  "get_inputs data =
     bind_exn (py_get data (lit ''inputs'')) (\<lambda>v. py_strip (py_or v (JStr [])))"

definition get_model_name :: "json \<Rightarrow> exn + json" where
  "get_model_name data =
     bind_exn (py_get data (lit ''model''))
       (\<lambda>v. Inr (py_or v (JStr (lit ''gemini-1.5-flash-latest''))))"

definition get_parameters :: "json \<Rightarrow> exn + json" where
  "get_parameters data =
     bind_exn (py_get data (lit ''parameters'')) (\<lambda>v. Inr (py_or v (JObj [])))"

definition default_inputs :: ustr where
  "default_inputs = lit ''Write a short, whimsical story suitable for kids.''"

text \<open>
  One \<open>if src in parameters: generation_config[dst] = parameters[src]\<close> of the source.
\<close>

definition copy_key :: "json \<Rightarrow> ustr \<Rightarrow> ustr \<Rightarrow> dict \<Rightarrow> exn + dict" where
  "copy_key parameters src dst gc =
     bind_exn (py_in src parameters)
       (\<lambda>present. if present
          then bind_exn (py_getitem parameters src) (\<lambda>v. Inr (AList.update dst v gc))
          else Inr gc)"

text \<open>The four copies in the order of the source, then the removal of \<open>None\<close> values.\<close>

definition generation_config :: "json \<Rightarrow> exn + dict" where
  "generation_config parameters =
     bind_exn (copy_key parameters (lit ''temperature'') (lit ''temperature'') []) (\<lambda>g1.
     bind_exn (copy_key parameters (lit ''top_p'') (lit ''top_p'') g1) (\<lambda>g2.
     bind_exn (copy_key parameters (lit ''top_k'') (lit ''top_k'') g2) (\<lambda>g3.
     bind_exn (copy_key parameters (lit ''max_new_tokens'') (lit ''max_output_tokens'') g3) (\<lambda>g4.
     Inr (filter (\<lambda>(k, v). v \<noteq> JNull) g4)))))"

text \<open>
  The upstream provider is outside the program. A call either raises (anywhere in the
  \<open>try\<close> block, with \<open>str(e)\<close> the message) or returns an object, of which the handler
  reads the attribute \<open>text\<close> and calls the method \<open>to_dict\<close>, each if it is there.
\<close>

record upstream_response =
  resp_text :: "json option"
  resp_to_dict :: "json option"

datatype upstream_outcome = Raises ustr | Returns upstream_response

type_synonym call = "json \<times> ustr \<times> dict"

type_synonym provider = "json \<Rightarrow> ustr \<Rightarrow> dict \<Rightarrow> upstream_outcome"

text \<open>\<open>getattr(resp, 'text', None)\<close> and \<open>resp.to_dict() if hasattr(resp, 'to_dict') else None\<close>.\<close>

definition getattr_text :: "upstream_response \<Rightarrow> json" where
  "getattr_text resp = (case resp_text resp of None \<Rightarrow> JNull | Some t \<Rightarrow> t)"

definition raw_payload :: "upstream_response \<Rightarrow> json" where
  "raw_payload resp = (case resp_to_dict resp of None \<Rightarrow> JNull | Some j \<Rightarrow> j)"

text \<open>The \<open>try\<close> block of \<open>generate\<close>, given what the upstream call did.\<close>

definition upstream_reply :: "upstream_outcome \<Rightarrow> response" where
  "upstream_reply out =
     (case out of
        Raises msg \<Rightarrow> jsonify [(lit ''error'', JStr msg)] 500
      | Returns resp \<Rightarrow>
          (let text = getattr_text resp
           in if truthy text
              then jsonify
                [(lit ''candidates'',
                  JArr [JObj [(lit ''content'',
                    JObj [(lit ''parts'', JArr [JObj [(lit ''text'', text)]]),
                          (lit ''role'', JStr (lit ''model''))])]]),
                 (lit ''text'', text)]
                200
              else jsonify
                [(lit ''error'', JStr (lit ''Empty response'')), (lit ''raw'', raw_payload resp)]
                502))"

definition not_configured :: response where
  "not_configured =
     jsonify [(lit ''error'', JStr (lit ''GOOGLE_API_KEY is not configured on the server''))] 500"

definition missing_inputs :: response where
  "missing_inputs =
     jsonify [(lit ''error'', JStr (lit ''Missing 'inputs' parameter''))] 400"

text \<open>
  \<open>generate\<close>: the upstream calls made, in order, and either the response or the
  exception that leaves the handler.
\<close>

definition generate :: "config \<Rightarrow> provider \<Rightarrow> request \<Rightarrow> call list \<times> (exn + response)" where
  "generate cfg upstream req =
     (if req_method req = lit ''OPTIONS'' then ([], Inr \<lparr> status = 204, payload = Text [] \<rparr>)
      else (case check_internal_auth cfg req of
        Inl e \<Rightarrow> ([], Inl e)
      | Inr (Some auth_err) \<Rightarrow> ([], Inr auth_err)
      | Inr None \<Rightarrow>
          if py_not (GOOGLE_API_KEY cfg) then ([], Inr not_configured)
          else (let data = request_data req in
            (case get_mode data of Inl e \<Rightarrow> ([], Inl e) | Inr mode \<Rightarrow>
            (case get_inputs data of Inl e \<Rightarrow> ([], Inl e) | Inr inputs \<Rightarrow>
            (case get_model_name data of Inl e \<Rightarrow> ([], Inl e) | Inr model_name \<Rightarrow>
            (case get_parameters data of Inl e \<Rightarrow> ([], Inl e) | Inr parameters \<Rightarrow>
              if mode \<noteq> lit ''random'' \<and> inputs = [] then ([], Inr missing_inputs)
              else (let inputs' = (if mode = lit ''random'' \<and> inputs = []
                                   then default_inputs else inputs) in
                (case generation_config parameters of
                  Inl e \<Rightarrow> ([], Inl e)
                | Inr gc \<Rightarrow>
                    ([(model_name, inputs', gc)],
                     Inr (upstream_reply (upstream model_name inputs' gc))))))))))))"

section \<open>The authentication gate decides on the first non-empty candidate\<close>

lemma body_key_dict:
  "request_data req = JObj d \<Longrightarrow>
   body_key req = Inr (case map_of d (lit ''api_key'') of Some (JStr s) \<Rightarrow> Some s | _ \<Rightarrow> None)"
  by (simp add: body_key_def py_get_def bind_exn_def split: option.splits json.splits)

lemma body_key_not_dict:
  "\<forall>d. request_data req \<noteq> JObj d \<Longrightarrow> body_key req = Inl AttributeError"
  by (cases "request_data req") (simp_all add: body_key_def py_get_def bind_exn_def)

lemma check_internal_auth_decides:
  assumes "truthy_opt (INTERNAL_API_KEY cfg)"
    and "req_method req \<noteq> lit ''OPTIONS''"
    and "path req \<noteq> lit ''/health''"
    and "provided req = Inr p"
  shows "check_internal_auth cfg req =
           (if p = INTERNAL_API_KEY cfg then Inr None else Inr (Some unauthorized))"
  using assms by (auto simp: check_internal_auth_def py_not_def bind_exn_def)

text \<open>
  With a body whose \<open>api_key\<close> field can be read, a request that brings no credential is
  refused, and one that brings the secret in exactly one place is let through.
\<close>

lemma check_internal_auth_no_credential:
  assumes "truthy_opt (INTERNAL_API_KEY cfg)"
    and "req_method req \<noteq> lit ''OPTIONS''"
    and "path req \<noteq> lit ''/health''"
    and "\<not> truthy_opt (bearer req)"
    and "\<not> truthy_opt (x_api_key req)"
    and "\<not> truthy_opt (query_key req)"
    and "body_key req = Inr b"
    and "\<not> truthy_opt b"
  shows "check_internal_auth cfg req = Inr (Some unauthorized)"
proof -
  have p: "provided req = Inr b"
    using assms(4-7) by (simp add: provided_def bind_exn_def or_opt_def)
  have "b \<noteq> INTERNAL_API_KEY cfg"
    using assms(1) assms(8) by auto
  then show ?thesis
    using check_internal_auth_decides [OF assms(1-3) p] by simp
qed

lemma check_internal_auth_single_channel:
  assumes "truthy_opt (INTERNAL_API_KEY cfg)"
    and "body_key req = Inr b"
    and "[bearer req, x_api_key req, query_key req, b] \<in>
           {[INTERNAL_API_KEY cfg, None, None, None], [None, INTERNAL_API_KEY cfg, None, None],
            [None, None, INTERNAL_API_KEY cfg, None], [None, None, None, INTERNAL_API_KEY cfg]}"
  shows "check_internal_auth cfg req = Inr None"
proof -
  have p: "provided req = Inr (INTERNAL_API_KEY cfg)"
    using assms by (auto simp: provided_def bind_exn_def or_opt_def truthy_opt_def)
  show ?thesis
    using assms(1) p by (simp add: check_internal_auth_def py_not_def bind_exn_def)
qed

text \<open>
  A body that parses to a truthy value other than an object (a non-empty array or string, a
  non-zero number, \<open>true\<close>) has no \<open>get\<close>: the function is left by the exception, whatever the headers and the
  query string hold.
\<close>

lemma check_internal_auth_raises:
  assumes "truthy_opt (INTERNAL_API_KEY cfg)"
    and "req_method req \<noteq> lit ''OPTIONS''"
    and "path req \<noteq> lit ''/health''"
    and "\<forall>d. request_data req \<noteq> JObj d"
  shows "check_internal_auth cfg req = Inl AttributeError"
  using assms(1-3) body_key_not_dict [OF assms(4)]
  by (simp add: check_internal_auth_def py_not_def provided_def bind_exn_def)

text \<open>
  Claim C1. With the secret configured, a request that is not \<open>OPTIONS\<close>, not to
  \<open>/health\<close>, and brings no credential in the bearer header, the \<open>x-api-key\<close> header, the
  query string or the body field is to get the 401 response. For the POST below, whose body is
  the JSON array \<open>[1]\<close> and which brings no credential anywhere, \<open>_check_internal_auth\<close>
  raises \<open>AttributeError\<close> instead, and so does \<open>generate\<close>.
\<close>

theorem check_internal_auth_no_credential_array_body:
  "check_internal_auth
     \<lparr> GOOGLE_API_KEY = Some (lit ''g-key''), INTERNAL_API_KEY = Some (lit ''s3cret'') \<rparr>
     \<lparr> req_method = lit ''POST'', path = lit ''/api/generate'', headers = Map.empty,
       args = Map.empty, json_body = Parsed (JArr [JInt 1]) \<rparr>
   = Inl AttributeError
   \<and> generate
     \<lparr> GOOGLE_API_KEY = Some (lit ''g-key''), INTERNAL_API_KEY = Some (lit ''s3cret'') \<rparr>
     upstream
     \<lparr> req_method = lit ''POST'', path = lit ''/api/generate'', headers = Map.empty,
       args = Map.empty, json_body = Parsed (JArr [JInt 1]) \<rparr>
   = ([], Inl AttributeError)"
  by (simp add: generate_def check_internal_auth_def provided_def body_key_def bearer_def
      x_api_key_def query_key_def request_data_def get_json_silent_def py_or_def py_get_def
      py_not_def or_opt_def truthy_opt_def bind_exn_def startswith_def lit_def)

text \<open>
  Claim C2. With the secret configured, a request that brings the secret in exactly one of
  the four places and nothing in the other three is to pass. The POST below brings it as
  bearer token, has no \<open>x-api-key\<close> header and no query parameter, and its body, the JSON
  array \<open>[1]\<close>, has no \<open>api_key\<close> field: \<open>_check_internal_auth\<close> raises \<open>AttributeError\<close>.
\<close>

theorem check_internal_auth_bearer_array_body:
  "bearer
     \<lparr> req_method = lit ''POST'', path = lit ''/api/generate'',
       headers = [lit ''Authorization'' \<mapsto> lit ''Bearer s3cret''],
       args = Map.empty, json_body = Parsed (JArr [JInt 1]) \<rparr>
   = Some (lit ''s3cret'')
   \<and> check_internal_auth
     \<lparr> GOOGLE_API_KEY = Some (lit ''g-key''), INTERNAL_API_KEY = Some (lit ''s3cret'') \<rparr>
     \<lparr> req_method = lit ''POST'', path = lit ''/api/generate'',
       headers = [lit ''Authorization'' \<mapsto> lit ''Bearer s3cret''],
       args = Map.empty, json_body = Parsed (JArr [JInt 1]) \<rparr>
   = Inl AttributeError"
  by (simp add: check_internal_auth_def provided_def body_key_def bearer_def
      x_api_key_def query_key_def request_data_def get_json_silent_def py_or_def py_get_def
      py_not_def or_opt_def truthy_opt_def bind_exn_def startswith_def lit_def)

text \<open>
  With a body whose \<open>api_key\<close> field can be read, past the two early returns, the candidate
  is the first non-empty value among bearer token, \<open>x-api-key\<close> header, \<open>api_key\<close> query
  parameter and \<open>api_key\<close> body field, and a non-empty bearer token other than the secret is
  refused whatever the other three hold.
\<close>

lemma check_internal_auth_first_non_empty:
  assumes "truthy_opt (INTERNAL_API_KEY cfg)"
    and "req_method req \<noteq> lit ''OPTIONS''"
    and "path req \<noteq> lit ''/health''"
    and "body_key req = Inr b"
  shows "\<exists>p. provided req = Inr p
           \<and> (case List.find truthy_opt [bearer req, x_api_key req, query_key req, b] of
                 None \<Rightarrow> \<not> truthy_opt p
               | Some c \<Rightarrow> p = c)
           \<and> check_internal_auth cfg req =
               (if p = INTERNAL_API_KEY cfg then Inr None else Inr (Some unauthorized))
           \<and> (truthy_opt (bearer req) \<and> bearer req \<noteq> INTERNAL_API_KEY cfg \<longrightarrow>
                check_internal_auth cfg req = Inr (Some unauthorized))"
proof -
  let ?p = "or_opt (or_opt (or_opt (bearer req) (x_api_key req)) (query_key req)) b"
  have p: "provided req = Inr ?p"
    using assms(4) by (simp add: provided_def bind_exn_def)
  have first: "(case List.find truthy_opt [bearer req, x_api_key req, query_key req, b] of
                  None \<Rightarrow> \<not> truthy_opt ?p | Some c \<Rightarrow> ?p = c)"
    by (simp add: or_opt_def)
  have dec: "check_internal_auth cfg req =
               (if ?p = INTERNAL_API_KEY cfg then Inr None else Inr (Some unauthorized))"
    by (rule check_internal_auth_decides [OF assms(1-3) p])
  have wrong: "truthy_opt (bearer req) \<and> bearer req \<noteq> INTERNAL_API_KEY cfg \<longrightarrow>
                check_internal_auth cfg req = Inr (Some unauthorized)"
    using dec by (simp add: or_opt_def)
  show ?thesis
    using p first dec wrong by blast
qed

text \<open>
  Claim C3. A request that brings credentials in more than one place is judged on the first
  non-empty one in the order bearer token, \<open>x-api-key\<close> header, query parameter, body field;
  in particular a non-empty bearer token other than the secret is to get the 401 response
  even when a later place holds the secret. The POST below has the bearer token \<open>wrong\<close> and
  the secret in the \<open>x-api-key\<close> header; its body is the JSON array \<open>[1]\<close>. All four
  candidates are computed before they are combined, so \<open>_check_internal_auth\<close> raises
  \<open>AttributeError\<close> on the body and returns no 401; \<open>generate\<close> is left by the same
  exception.
\<close>

theorem check_internal_auth_wrong_bearer_array_body:
  "bearer
     \<lparr> req_method = lit ''POST'', path = lit ''/api/generate'',
       headers = [lit ''Authorization'' \<mapsto> lit ''Bearer wrong'',
                  lit ''x-api-key'' \<mapsto> lit ''s3cret''],
       args = Map.empty, json_body = Parsed (JArr [JInt 1]) \<rparr>
   = Some (lit ''wrong'')
   \<and> x_api_key
     \<lparr> req_method = lit ''POST'', path = lit ''/api/generate'',
       headers = [lit ''Authorization'' \<mapsto> lit ''Bearer wrong'',
                  lit ''x-api-key'' \<mapsto> lit ''s3cret''],
       args = Map.empty, json_body = Parsed (JArr [JInt 1]) \<rparr>
   = Some (lit ''s3cret'')
   \<and> check_internal_auth
     \<lparr> GOOGLE_API_KEY = Some (lit ''g-key''), INTERNAL_API_KEY = Some (lit ''s3cret'') \<rparr>
     \<lparr> req_method = lit ''POST'', path = lit ''/api/generate'',
       headers = [lit ''Authorization'' \<mapsto> lit ''Bearer wrong'',
                  lit ''x-api-key'' \<mapsto> lit ''s3cret''],
       args = Map.empty, json_body = Parsed (JArr [JInt 1]) \<rparr>
   = Inl AttributeError
   \<and> generate
     \<lparr> GOOGLE_API_KEY = Some (lit ''g-key''), INTERNAL_API_KEY = Some (lit ''s3cret'') \<rparr>
     upstream
     \<lparr> req_method = lit ''POST'', path = lit ''/api/generate'',
       headers = [lit ''Authorization'' \<mapsto> lit ''Bearer wrong'',
                  lit ''x-api-key'' \<mapsto> lit ''s3cret''],
       args = Map.empty, json_body = Parsed (JArr [JInt 1]) \<rparr>
   = ([], Inl AttributeError)"
  by (simp add: generate_def check_internal_auth_def provided_def body_key_def bearer_def
      x_api_key_def query_key_def request_data_def get_json_silent_def py_or_def py_get_def
      py_not_def or_opt_def truthy_opt_def bind_exn_def startswith_def lit_def)

section \<open>The mapping of the parameters\<close>

lemma key_neq:
  "lit ''temperature'' \<noteq> lit ''top_p''" "lit ''temperature'' \<noteq> lit ''top_k''"
  "lit ''temperature'' \<noteq> lit ''max_output_tokens''" "lit ''top_p'' \<noteq> lit ''top_k''"
  "lit ''top_p'' \<noteq> lit ''max_output_tokens''" "lit ''top_k'' \<noteq> lit ''max_output_tokens''"
  by (simp_all add: lit_def)

lemma copy_key_dict:
  "copy_key (JObj d) src dst gc =
     Inr (case map_of d src of None \<Rightarrow> gc | Some v \<Rightarrow> AList.update dst v gc)"
  by (simp add: copy_key_def py_in_def py_getitem_def bind_exn_def split: option.splits)

lemma distinct_copied:
  "distinct (map fst gc) \<Longrightarrow>
   distinct (map fst (case vo of None \<Rightarrow> gc | Some v \<Rightarrow> AList.update dst v gc))"
  by (simp add: AList.distinct_update split: option.splits)

lemma map_of_copied:
  "map_of (case vo of None \<Rightarrow> gc | Some v \<Rightarrow> AList.update dst v gc) k =
     (if k = dst \<and> vo \<noteq> None then vo else map_of gc k)"
  by (simp add: AList.update_conv' split: option.splits)

lemma copy_key_dict_props:
  assumes "distinct (map fst gc)"
  shows "\<exists>g. copy_key (JObj d) src dst gc = Inr g \<and> distinct (map fst g)
           \<and> (\<forall>k. map_of g k =
                 (if k = dst \<and> map_of d src \<noteq> None then map_of d src else map_of gc k))"
  using assms by (simp add: copy_key_dict distinct_copied map_of_copied)

lemma map_of_filter_values:
  "distinct (map fst xs) \<Longrightarrow>
   map_of (filter (\<lambda>(k, v). v \<noteq> JNull) xs) k =
     (if map_of xs k = Some JNull then None else map_of xs k)"
proof (induction xs)
  case Nil
  then show ?case by simp
next
  case (Cons x xs)
  obtain a b where x: "x = (a, b)" by (cases x)
  have notin: "a \<notin> fst ` set xs" using Cons.prems x by simp
  have none: "map_of xs a = None" using notin by (simp add: map_of_eq_None_iff)
  show ?case using Cons x none by auto
qed

lemma no_null_filter: "JNull \<notin> snd ` set (filter (\<lambda>(k, v). v \<noteq> JNull) xs)"
  by auto

lemma generation_config_dict:
  "\<exists>gc. generation_config (JObj d) = Inr gc
      \<and> distinct (map fst gc)
      \<and> JNull \<notin> snd ` set gc
      \<and> (\<forall>k. map_of gc k =
            (if k = lit ''temperature'' \<or> k = lit ''top_p'' \<or> k = lit ''top_k''
             then (if map_of d k = Some JNull then None else map_of d k)
             else if k = lit ''max_output_tokens''
             then (if map_of d (lit ''max_new_tokens'') = Some JNull then None
                   else map_of d (lit ''max_new_tokens''))
             else None))"
proof -
  obtain g1 where g1: "copy_key (JObj d) (lit ''temperature'') (lit ''temperature'') [] = Inr g1"
    and d1: "distinct (map fst g1)"
    and m1: "\<And>k. map_of g1 k = (if k = lit ''temperature'' \<and> map_of d (lit ''temperature'') \<noteq> None
                                  then map_of d (lit ''temperature'') else None)"
    using copy_key_dict_props [of "[]" d "lit ''temperature''" "lit ''temperature''"] by auto
  obtain g2 where g2: "copy_key (JObj d) (lit ''top_p'') (lit ''top_p'') g1 = Inr g2"
    and d2: "distinct (map fst g2)"
    and m2: "\<And>k. map_of g2 k = (if k = lit ''top_p'' \<and> map_of d (lit ''top_p'') \<noteq> None
                                  then map_of d (lit ''top_p'') else map_of g1 k)"
    using copy_key_dict_props [OF d1, of d "lit ''top_p''" "lit ''top_p''"] by auto
  obtain g3 where g3: "copy_key (JObj d) (lit ''top_k'') (lit ''top_k'') g2 = Inr g3"
    and d3: "distinct (map fst g3)"
    and m3: "\<And>k. map_of g3 k = (if k = lit ''top_k'' \<and> map_of d (lit ''top_k'') \<noteq> None
                                  then map_of d (lit ''top_k'') else map_of g2 k)"
    using copy_key_dict_props [OF d2, of d "lit ''top_k''" "lit ''top_k''"] by auto
  obtain g4 where g4: "copy_key (JObj d) (lit ''max_new_tokens'') (lit ''max_output_tokens'') g3 = Inr g4"
    and d4: "distinct (map fst g4)"
    and m4: "\<And>k. map_of g4 k =
               (if k = lit ''max_output_tokens'' \<and> map_of d (lit ''max_new_tokens'') \<noteq> None
                then map_of d (lit ''max_new_tokens'') else map_of g3 k)"
    using copy_key_dict_props [OF d3, of d "lit ''max_new_tokens''" "lit ''max_output_tokens''"]
    by auto
  let ?gc = "filter (\<lambda>(k, v). v \<noteq> JNull) g4"
  have r: "generation_config (JObj d) = Inr ?gc"
    by (simp add: generation_config_def bind_exn_def g1 g2 g3 g4)
  have dist: "distinct (map fst ?gc)"
    using d4 by (rule distinct_map_filter)
  have nn: "JNull \<notin> snd ` set ?gc"
    by (rule no_null_filter)
  have mp: "\<And>k. map_of ?gc k =
            (if k = lit ''temperature'' \<or> k = lit ''top_p'' \<or> k = lit ''top_k''
             then (if map_of d k = Some JNull then None else map_of d k)
             else if k = lit ''max_output_tokens''
             then (if map_of d (lit ''max_new_tokens'') = Some JNull then None
                   else map_of d (lit ''max_new_tokens''))
             else None)"
    using key_neq by (simp add: map_of_filter_values [OF d4] m4 m3 m2 m1)
  show ?thesis
    using r dist nn mp by blast
qed

lemma generation_config_example:
  "generation_config
     (JObj [(lit ''temperature'', JFloat (Finite (1 / 2))), (lit ''max_new_tokens'', JInt 100),
            (lit ''unknown_key'', JStr (lit ''x''))]) =
   Inr [(lit ''temperature'', JFloat (Finite (1 / 2))), (lit ''max_output_tokens'', JInt 100)]"
  by (simp add: generation_config_def copy_key_dict bind_exn_def lit_def)

lemma generation_config_null: "generation_config (JObj [(lit ''top_p'', JNull)]) = Inr []"
  by (simp add: generation_config_def copy_key_dict bind_exn_def lit_def)

text \<open>
  Claim C4. For every dict of parameters the mapping succeeds, and its result holds exactly
  the keys among \<open>temperature\<close>, \<open>top_p\<close>, \<open>top_k\<close> and \<open>max_output_tokens\<close> (read from
  \<open>max_new_tokens\<close>) that the input has with a value other than \<open>None\<close>, each with the
  input's value; a \<open>None\<close> value is dropped, any other key is ignored, and no value of the
  result is \<open>None\<close>. The two examples of the specification are evaluated.
\<close>

theorem generation_config_maps_parameters:
  "(\<exists>gc. generation_config (JObj d) = Inr gc
      \<and> distinct (map fst gc)
      \<and> JNull \<notin> snd ` set gc
      \<and> (\<forall>k. map_of gc k =
            (if k = lit ''temperature'' \<or> k = lit ''top_p'' \<or> k = lit ''top_k''
             then (if map_of d k = Some JNull then None else map_of d k)
             else if k = lit ''max_output_tokens''
             then (if map_of d (lit ''max_new_tokens'') = Some JNull then None
                   else map_of d (lit ''max_new_tokens''))
             else None)))
   \<and> generation_config
       (JObj [(lit ''temperature'', JFloat (Finite (1 / 2))), (lit ''max_new_tokens'', JInt 100),
              (lit ''unknown_key'', JStr (lit ''x''))]) =
     Inr [(lit ''temperature'', JFloat (Finite (1 / 2))), (lit ''max_output_tokens'', JInt 100)]
   \<and> generation_config (JObj [(lit ''top_p'', JNull)]) = Inr []"
  using generation_config_dict [of d] generation_config_example generation_config_null
  by blast

section \<open>Reading the body\<close>

lemma post_not_options: "req_method req = lit ''POST'' \<Longrightarrow> req_method req \<noteq> lit ''OPTIONS''"
  by (simp add: lit_def)

lemma get_mode_dict: "get_mode data = Inr m \<Longrightarrow> \<exists>d. data = JObj d"
  by (cases data) (simp_all add: get_mode_def py_get_def bind_exn_def)

lemma get_model_name_dict:
  "get_model_name (JObj d) =
     Inr (py_or (case map_of d (lit ''model'') of None \<Rightarrow> JNull | Some v \<Rightarrow> v)
            (JStr (lit ''gemini-1.5-flash-latest'')))"
  by (simp add: get_model_name_def py_get_def bind_exn_def)

lemma get_parameters_dict:
  "get_parameters (JObj d) =
     Inr (py_or (case map_of d (lit ''parameters'') of None \<Rightarrow> JNull | Some v \<Rightarrow> v) (JObj []))"
  by (simp add: get_parameters_def py_get_def bind_exn_def)




section \<open>Validation of the inputs\<close>

text \<open>
  Past the authentication gate and the provider-key test, a mode other than \<open>random\<close> with empty inputs ends
  the handler at the validation, before any upstream call.
\<close>

lemma generate_non_random_empty:
  assumes "req_method req = lit ''POST''"
    and "check_internal_auth cfg req = Inr None"
    and "truthy_opt (GOOGLE_API_KEY cfg)"
    and "get_mode (request_data req) = Inr mode"
    and "mode \<noteq> lit ''random''"
    and "get_inputs (request_data req) = Inr []"
  shows "generate cfg upstream req = ([], Inr missing_inputs)"
proof -
  obtain d where d: "request_data req = JObj d"
    using assms(4) get_mode_dict by blast
  have m: "req_method req \<noteq> lit ''OPTIONS''"
    using assms(1) by (rule post_not_options)
  show ?thesis
    using assms m d
    by (simp add: generate_def py_not_def get_model_name_dict get_parameters_dict)
qed

text \<open>
  Claim C5. A POST to \<open>/api/generate\<close> that passes the authentication gate, with the provider key
  configured, whose trimmed mode is not \<open>random\<close> and whose trimmed inputs are empty, gets
  the 400 response \<open>Missing 'inputs' parameter\<close>, and no upstream call is made.
\<close>

theorem generate_missing_inputs:
  assumes "req_method req = lit ''POST''"
    and "check_internal_auth cfg req = Inr None"
    and "truthy_opt (GOOGLE_API_KEY cfg)"
    and "get_mode (request_data req) = Inr mode"
    and "mode \<noteq> lit ''random''"
    and "get_inputs (request_data req) = Inr []"
  shows "generate cfg upstream req = ([], Inr missing_inputs)
         \<and> status missing_inputs = 400"
  using generate_non_random_empty [OF assms] by (simp add: missing_inputs_def jsonify_def)

theorem generate_missing_inputs_witness:
  "generate \<lparr> GOOGLE_API_KEY = Some (lit ''g-key''), INTERNAL_API_KEY = Some (lit ''s3cret'') \<rparr>
     (\<lambda>m i g. Raises [])
     \<lparr> req_method = lit ''POST'', path = lit ''/api/generate'',
       headers = [lit ''x-api-key'' \<mapsto> lit ''s3cret''], args = Map.empty,
       json_body = Parsed (JObj [(lit ''mode'', JStr (lit '' story '')),
                                 (lit ''inputs'', JStr (lit ''  ''))]) \<rparr>
   = ([], Inr missing_inputs)"
proof -
  let ?cfg = "\<lparr> GOOGLE_API_KEY = Some (lit ''g-key''), INTERNAL_API_KEY = Some (lit ''s3cret'') \<rparr>"
  let ?req = "\<lparr> req_method = lit ''POST'', path = lit ''/api/generate'',
       headers = [lit ''x-api-key'' \<mapsto> lit ''s3cret''], args = Map.empty,
       json_body = Parsed (JObj [(lit ''mode'', JStr (lit '' story '')),
                                 (lit ''inputs'', JStr (lit ''  ''))]) \<rparr>"
  have h1: "req_method ?req = lit ''POST''" by simp
  have h2: "check_internal_auth ?cfg ?req = Inr None"
    by (simp add: check_internal_auth_def provided_def body_key_def bearer_def x_api_key_def
        query_key_def request_data_def get_json_silent_def py_or_def py_get_def py_not_def
        or_opt_def truthy_opt_def bind_exn_def startswith_def lit_def)
  have h3: "truthy_opt (GOOGLE_API_KEY ?cfg)" by (simp add: truthy_opt_def lit_def)
  have h4: "get_mode (request_data ?req) = Inr (lit ''story'')"
    by (simp add: get_mode_def request_data_def get_json_silent_def py_or_def py_get_def
        py_strip_def strip_def isspace_def bind_exn_def lit_def)
  have h5: "lit ''story'' \<noteq> lit ''random''" by (simp add: lit_def)
  have h6: "get_inputs (request_data ?req) = Inr []"
    by (simp add: get_inputs_def request_data_def get_json_silent_def py_or_def py_get_def
        py_strip_def strip_def isspace_def bind_exn_def lit_def)
  show ?thesis using generate_missing_inputs [OF h1 h2 h3 h4 h5 h6] by simp
qed

text \<open>
  Claim C7. A POST to \<open>/api/generate\<close> that passes the authentication gate while the provider key is not
  configured gets the 500 response \<open>GOOGLE_API_KEY is not configured on the server\<close>,
  whatever its body: the body is not read by the handler before that test.
\<close>

theorem generate_not_configured:
  assumes "req_method req = lit ''POST''"
    and "check_internal_auth cfg req = Inr None"
    and "\<not> truthy_opt (GOOGLE_API_KEY cfg)"
  shows "generate cfg upstream req = ([], Inr not_configured)
         \<and> status not_configured = 500"
proof -
  have m: "req_method req \<noteq> lit ''OPTIONS''"
    using assms(1) by (rule post_not_options)
  show ?thesis
    using assms m by (simp add: generate_def py_not_def not_configured_def jsonify_def)
qed

theorem generate_not_configured_witness:
  "generate \<lparr> GOOGLE_API_KEY = None, INTERNAL_API_KEY = None \<rparr>
     (\<lambda>m i g. Raises [])
     \<lparr> req_method = lit ''POST'', path = lit ''/api/generate'', headers = Map.empty,
       args = Map.empty, json_body = Parsed (JObj [(lit ''mode'', JStr (lit ''prompt''))]) \<rparr>
   = ([], Inr not_configured)"
proof -
  let ?cfg = "\<lparr> GOOGLE_API_KEY = None, INTERNAL_API_KEY = None \<rparr>"
  let ?req = "\<lparr> req_method = lit ''POST'', path = lit ''/api/generate'', headers = Map.empty,
       args = Map.empty, json_body = Parsed (JObj [(lit ''mode'', JStr (lit ''prompt''))]) \<rparr>"
  have h1: "req_method ?req = lit ''POST''" by simp
  have h2: "check_internal_auth ?cfg ?req = Inr None"
    by (simp add: check_internal_auth_def py_not_def truthy_opt_def)
  have h3: "\<not> truthy_opt (GOOGLE_API_KEY ?cfg)" by (simp add: truthy_opt_def)
  show ?thesis using generate_not_configured [OF h1 h2 h3] by simp
qed



text \<open>
  With mode \<open>random\<close> and empty inputs the fixed text is what the upstream call gets,
  provided the mapping of the parameters succeeds.
\<close>

lemma generate_random_default:
  assumes "req_method req = lit ''POST''"
    and "check_internal_auth cfg req = Inr None"
    and "truthy_opt (GOOGLE_API_KEY cfg)"
    and "get_mode (request_data req) = Inr (lit ''random'')"
    and "get_inputs (request_data req) = Inr []"
    and "get_model_name (request_data req) = Inr model_name"
    and "get_parameters (request_data req) = Inr parameters"
    and "generation_config parameters = Inr gc"
  shows "generate cfg upstream req =
           ([(model_name, default_inputs, gc)],
            Inr (upstream_reply (upstream model_name default_inputs gc)))"
proof -
  have m: "req_method req \<noteq> lit ''OPTIONS''"
    using assms(1) by (rule post_not_options)
  show ?thesis
    using assms m by (simp add: generate_def py_not_def)
qed

text \<open>
  Claim C6. A POST that passes the authentication gate, with the provider key configured,
  mode \<open>random\<close> and empty inputs, is to reach the upstream provider with the fixed text.
  The POST below is such a request; its \<open>parameters\<close> field is the number 1, the test
  \<open>'temperature' in parameters\<close> raises \<open>TypeError\<close>, and no upstream call is made.
\<close>

theorem generate_random_bad_parameters:
  "get_mode (request_data
     \<lparr> req_method = lit ''POST'', path = lit ''/api/generate'', headers = Map.empty,
       args = Map.empty,
       json_body = Parsed (JObj [(lit ''mode'', JStr (lit ''random'')),
                                 (lit ''parameters'', JInt 1)]) \<rparr>)
   = Inr (lit ''random'')
   \<and> get_inputs (request_data
     \<lparr> req_method = lit ''POST'', path = lit ''/api/generate'', headers = Map.empty,
       args = Map.empty,
       json_body = Parsed (JObj [(lit ''mode'', JStr (lit ''random'')),
                                 (lit ''parameters'', JInt 1)]) \<rparr>)
   = Inr []
   \<and> generate \<lparr> GOOGLE_API_KEY = Some (lit ''g-key''), INTERNAL_API_KEY = None \<rparr> upstream
     \<lparr> req_method = lit ''POST'', path = lit ''/api/generate'', headers = Map.empty,
       args = Map.empty,
       json_body = Parsed (JObj [(lit ''mode'', JStr (lit ''random'')),
                                 (lit ''parameters'', JInt 1)]) \<rparr>
   = ([], Inl TypeError)"
  by (simp add: generate_def check_internal_auth_def py_not_def truthy_opt_def
      request_data_def get_json_silent_def py_or_def get_mode_def get_inputs_def
      get_model_name_def get_parameters_def py_get_def py_strip_def strip_def isspace_def
      bind_exn_def generation_config_def copy_key_def py_in_def lit_def)

section \<open>The mode is compared with \<open>random\<close> only\<close>

lemma update_not_Nil: "AList.update k v al \<noteq> []"
  by (cases al) auto

lemma field_neq:
  "lit ''api_key'' \<noteq> lit ''mode''" "lit ''inputs'' \<noteq> lit ''mode''"
  "lit ''model'' \<noteq> lit ''mode''" "lit ''parameters'' \<noteq> lit ''mode''"
  "lit ''prompt'' \<noteq> lit ''random''"
  by (simp_all add: lit_def)

lemma strip_prompt: "strip (lit ''prompt'') = lit ''prompt''"
  by (simp add: strip_def lit_def isspace_def)

lemma request_data_parsed_dict:
  "d \<noteq> [] \<Longrightarrow> request_data (req\<lparr> json_body := Parsed (JObj d) \<rparr>) = JObj d"
  by (simp add: request_data_def get_json_silent_def py_or_def)

lemma py_get_update_other:
  "k \<noteq> k' \<Longrightarrow> py_get (JObj (AList.update k' v d)) k = py_get (JObj d) k"
  by (simp add: py_get_def AList.update_conv')

lemma generate_mode_prompt:
  assumes "request_data req = JObj d"
    and "get_mode (JObj d) = Inr mode"
    and "mode \<noteq> lit ''random''"
  shows "generate cfg upstream req =
         generate cfg upstream
           (req\<lparr> json_body := Parsed (JObj (AList.update (lit ''mode'') (JStr (lit ''prompt'')) d)) \<rparr>)"
proof -
  let ?d' = "AList.update (lit ''mode'') (JStr (lit ''prompt'')) d"
  let ?req' = "req\<lparr> json_body := Parsed (JObj ?d') \<rparr>"
  have data': "request_data ?req' = JObj ?d'"
    by (rule request_data_parsed_dict) (rule update_not_Nil)
  have auth: "check_internal_auth cfg ?req' = check_internal_auth cfg req"
    using assms(1) data' field_neq(1)
    by (simp add: check_internal_auth_def provided_def body_key_def bearer_def x_api_key_def
        query_key_def py_get_update_other)
  have mode': "get_mode (JObj ?d') = Inr (lit ''prompt'')"
    using field_neq(5)
    by (simp add: get_mode_def py_get_def bind_exn_def AList.update_conv' py_or_def
        py_strip_def strip_prompt)
  have inputs': "get_inputs (JObj ?d') = get_inputs (JObj d)"
    using field_neq(2) by (simp add: get_inputs_def py_get_update_other)
  have model': "get_model_name (JObj ?d') = get_model_name (JObj d)"
    using field_neq(3) by (simp add: get_model_name_def py_get_update_other)
  have params': "get_parameters (JObj ?d') = get_parameters (JObj d)"
    using field_neq(4) by (simp add: get_parameters_def py_get_update_other)
  show ?thesis
    using assms field_neq(5)
    by (simp add: generate_def Let_def auth data' mode' inputs' model' params'
          split: sum.split option.split)
qed

lemma generate_calls_non_random:
  assumes "request_data req = JObj d"
    and "get_mode (JObj d) = Inr mode"
    and "mode \<noteq> lit ''random''"
    and "(model_name, inputs, gc) \<in> set (fst (generate cfg upstream req))"
  shows "get_inputs (JObj d) = Inr inputs \<and> inputs \<noteq> []"
  using assms
  by (auto simp: generate_def Let_def split: if_splits sum.splits option.splits)

text \<open>
  Claim C10. The mode is not checked against \<open>prompt\<close> and \<open>random\<close>: a request whose
  trimmed mode is anything but \<open>random\<close> (such as \<open>story\<close>) is handled exactly as the same
  request with mode \<open>prompt\<close>. Every upstream call it makes carries its own trimmed inputs,
  which are not empty (no default text is put in their place), empty trimmed inputs give the
  400 response, and the outcomes are those of mode \<open>prompt\<close>, none of them an unknown-mode
  error.
\<close>

theorem generate_mode_not_validated:
  assumes "request_data req = JObj d"
    and "get_mode (JObj d) = Inr mode"
    and "mode \<noteq> lit ''random''"
  shows "generate cfg upstream req =
           generate cfg upstream
             (req\<lparr> json_body :=
                    Parsed (JObj (AList.update (lit ''mode'') (JStr (lit ''prompt'')) d)) \<rparr>)
         \<and> (\<forall>c \<in> set (fst (generate cfg upstream req)).
               get_inputs (JObj d) = Inr (fst (snd c)) \<and> fst (snd c) \<noteq> [])
         \<and> (req_method req = lit ''POST'' \<and> check_internal_auth cfg req = Inr None
              \<and> truthy_opt (GOOGLE_API_KEY cfg) \<and> get_inputs (JObj d) = Inr [] \<longrightarrow>
             generate cfg upstream req = ([], Inr missing_inputs))"
proof -
  have same: "generate cfg upstream req =
           generate cfg upstream
             (req\<lparr> json_body :=
                    Parsed (JObj (AList.update (lit ''mode'') (JStr (lit ''prompt'')) d)) \<rparr>)"
    using assms by (rule generate_mode_prompt)
  have calls: "\<forall>c \<in> set (fst (generate cfg upstream req)).
               get_inputs (JObj d) = Inr (fst (snd c)) \<and> fst (snd c) \<noteq> []"
  proof
    fix c
    assume c: "c \<in> set (fst (generate cfg upstream req))"
    obtain m i g where "c = (m, i, g)" by (cases c)
    then show "get_inputs (JObj d) = Inr (fst (snd c)) \<and> fst (snd c) \<noteq> []"
      using generate_calls_non_random [OF assms, of m i g cfg upstream] c by simp
  qed
  have empty: "req_method req = lit ''POST'' \<and> check_internal_auth cfg req = Inr None
              \<and> truthy_opt (GOOGLE_API_KEY cfg) \<and> get_inputs (JObj d) = Inr [] \<longrightarrow>
             generate cfg upstream req = ([], Inr missing_inputs)"
    using generate_non_random_empty [of req cfg mode upstream] assms by simp
  show ?thesis
    using same calls empty by blast
qed

theorem generate_mode_not_validated_witness:
  "generate \<lparr> GOOGLE_API_KEY = Some (lit ''g-key''), INTERNAL_API_KEY = None \<rparr>
     (\<lambda>m i g. Returns \<lparr> resp_text = Some (JStr (lit ''Once'')), resp_to_dict = None \<rparr>)
     \<lparr> req_method = lit ''POST'', path = lit ''/api/generate'', headers = Map.empty,
       args = Map.empty,
       json_body = Parsed (JObj [(lit ''mode'', JStr (lit ''story'')),
                                 (lit ''inputs'', JStr (lit '' Tell me a tale ''))]) \<rparr>
   = generate \<lparr> GOOGLE_API_KEY = Some (lit ''g-key''), INTERNAL_API_KEY = None \<rparr>
     (\<lambda>m i g. Returns \<lparr> resp_text = Some (JStr (lit ''Once'')), resp_to_dict = None \<rparr>)
     \<lparr> req_method = lit ''POST'', path = lit ''/api/generate'', headers = Map.empty,
       args = Map.empty,
       json_body = Parsed (JObj [(lit ''mode'', JStr (lit ''prompt'')),
                                 (lit ''inputs'', JStr (lit '' Tell me a tale ''))]) \<rparr>
   \<and> fst (generate \<lparr> GOOGLE_API_KEY = Some (lit ''g-key''), INTERNAL_API_KEY = None \<rparr>
     (\<lambda>m i g. Returns \<lparr> resp_text = Some (JStr (lit ''Once'')), resp_to_dict = None \<rparr>)
     \<lparr> req_method = lit ''POST'', path = lit ''/api/generate'', headers = Map.empty,
       args = Map.empty,
       json_body = Parsed (JObj [(lit ''mode'', JStr (lit ''story'')),
                                 (lit ''inputs'', JStr (lit '' Tell me a tale ''))]) \<rparr>)
   = [(JStr (lit ''gemini-1.5-flash-latest''), lit ''Tell me a tale'', [])]"
proof -
  let ?cfg = "\<lparr> GOOGLE_API_KEY = Some (lit ''g-key''), INTERNAL_API_KEY = None \<rparr>"
  let ?up = "\<lambda>(m::json) (i::ustr) (g::dict).
               Returns \<lparr> resp_text = Some (JStr (lit ''Once'')), resp_to_dict = None \<rparr>"
  let ?d = "[(lit ''mode'', JStr (lit ''story'')),
             (lit ''inputs'', JStr (lit '' Tell me a tale ''))]"
  let ?req = "\<lparr> req_method = lit ''POST'', path = lit ''/api/generate'', headers = Map.empty,
       args = Map.empty, json_body = Parsed (JObj ?d) \<rparr>"
  have h1: "request_data ?req = JObj ?d"
    by (simp add: request_data_def get_json_silent_def py_or_def)
  have h2: "get_mode (JObj ?d) = Inr (lit ''story'')"
    by (simp add: get_mode_def py_or_def py_get_def py_strip_def strip_def isspace_def
        bind_exn_def lit_def)
  have h3: "lit ''story'' \<noteq> lit ''random''" by (simp add: lit_def)
  have calls: "fst (generate ?cfg ?up ?req) =
      [(JStr (lit ''gemini-1.5-flash-latest''), lit ''Tell me a tale'', [])]"
    by (simp add: generate_def check_internal_auth_def py_not_def truthy_opt_def
        request_data_def get_json_silent_def py_or_def get_mode_def get_inputs_def
        get_model_name_def get_parameters_def py_get_def py_strip_def strip_def isspace_def
        bind_exn_def generation_config_def copy_key_def py_in_def lit_def)
  show ?thesis
    using generate_mode_not_validated [OF h1 h2 h3, of ?cfg ?up] calls by simp
qed

section \<open>The upstream reply\<close>

text \<open>
  Claim C9. When the upstream call returns an object whose \<open>text\<close> attribute is missing,
  \<open>None\<close> or the empty string, the handler answers 502 with the error \<open>Empty response\<close>, and
  under \<open>raw\<close> it gives what the object's \<open>to_dict\<close> returns when the object has that
  method, \<open>None\<close> when it has not.
\<close>

theorem generate_empty_response:
  assumes "fst (generate cfg upstream req) = [(model_name, inputs, gc)]"
    and "upstream model_name inputs gc = Returns resp"
    and "resp_text resp = None \<or> resp_text resp = Some JNull \<or> resp_text resp = Some (JStr [])"
  shows "snd (generate cfg upstream req) =
           Inr \<lparr> status = 502,
                 payload = JsonBody (JObj
                   [(lit ''error'', JStr (lit ''Empty response'')),
                    (lit ''raw'', case resp_to_dict resp of None \<Rightarrow> JNull | Some j \<Rightarrow> j)]) \<rparr>"
proof -
  have no_text: "\<not> truthy (getattr_text resp)"
    using assms(3) by (auto simp: getattr_text_def)
  have reply: "upstream_reply (Returns resp) =
           \<lparr> status = 502,
             payload = JsonBody (JObj
               [(lit ''error'', JStr (lit ''Empty response'')),
                (lit ''raw'', case resp_to_dict resp of None \<Rightarrow> JNull | Some j \<Rightarrow> j)]) \<rparr>"
    using no_text by (simp add: upstream_reply_def jsonify_def raw_payload_def)
  have "snd (generate cfg upstream req) = Inr (upstream_reply (upstream model_name inputs gc))"
    using assms(1)
    by (auto simp: generate_def Let_def split: if_splits sum.splits option.splits)
  then show ?thesis
    using assms(2) reply by simp
qed

text \<open>
  Three upstream objects on the same request: no \<open>text\<close> attribute and a \<open>to_dict\<close> method,
  a \<open>text\<close> that is \<open>None\<close> and no \<open>to_dict\<close>, and an empty \<open>text\<close> with another payload.
\<close>

theorem generate_empty_response_witness:
  "snd (generate \<lparr> GOOGLE_API_KEY = Some (lit ''g-key''), INTERNAL_API_KEY = None \<rparr>
     (\<lambda>m i g. Returns \<lparr> resp_text = None,
                          resp_to_dict = Some (JObj [(lit ''candidates'', JArr [])]) \<rparr>)
     \<lparr> req_method = lit ''POST'', path = lit ''/api/generate'', headers = Map.empty,
       args = Map.empty,
       json_body = Parsed (JObj [(lit ''inputs'', JStr (lit ''Tell me a tale''))]) \<rparr>)
   = Inr \<lparr> status = 502,
           payload = JsonBody (JObj [(lit ''error'', JStr (lit ''Empty response'')),
                                     (lit ''raw'', JObj [(lit ''candidates'', JArr [])])]) \<rparr>
   \<and> snd (generate \<lparr> GOOGLE_API_KEY = Some (lit ''g-key''), INTERNAL_API_KEY = None \<rparr>
     (\<lambda>m i g. Returns \<lparr> resp_text = Some JNull, resp_to_dict = None \<rparr>)
     \<lparr> req_method = lit ''POST'', path = lit ''/api/generate'', headers = Map.empty,
       args = Map.empty,
       json_body = Parsed (JObj [(lit ''inputs'', JStr (lit ''Tell me a tale''))]) \<rparr>)
   = Inr \<lparr> status = 502,
           payload = JsonBody (JObj [(lit ''error'', JStr (lit ''Empty response'')),
                                     (lit ''raw'', JNull)]) \<rparr>
   \<and> snd (generate \<lparr> GOOGLE_API_KEY = Some (lit ''g-key''), INTERNAL_API_KEY = None \<rparr>
     (\<lambda>m i g. Returns \<lparr> resp_text = Some (JStr []),
                          resp_to_dict = Some (JObj [(lit ''blocked'', JBool True)]) \<rparr>)
     \<lparr> req_method = lit ''POST'', path = lit ''/api/generate'', headers = Map.empty,
       args = Map.empty,
       json_body = Parsed (JObj [(lit ''inputs'', JStr (lit ''Tell me a tale''))]) \<rparr>)
   = Inr \<lparr> status = 502,
           payload = JsonBody (JObj [(lit ''error'', JStr (lit ''Empty response'')),
                                     (lit ''raw'', JObj [(lit ''blocked'', JBool True)])]) \<rparr>"
proof -
  let ?cfg = "\<lparr> GOOGLE_API_KEY = Some (lit ''g-key''), INTERNAL_API_KEY = None \<rparr>"
  let ?req = "\<lparr> req_method = lit ''POST'', path = lit ''/api/generate'', headers = Map.empty,
       args = Map.empty,
       json_body = Parsed (JObj [(lit ''inputs'', JStr (lit ''Tell me a tale''))]) \<rparr>"
  let ?r1 = "\<lparr> resp_text = None,
               resp_to_dict = Some (JObj [(lit ''candidates'', JArr [])]) \<rparr>"
  let ?r2 = "\<lparr> resp_text = Some JNull, resp_to_dict = None \<rparr>"
  let ?r3 = "\<lparr> resp_text = Some (JStr []),
               resp_to_dict = Some (JObj [(lit ''blocked'', JBool True)]) \<rparr>"
  have calls: "\<And>up. fst (generate ?cfg up ?req) =
      [(JStr (lit ''gemini-1.5-flash-latest''), lit ''Tell me a tale'', [])]"
    by (simp add: Let_def generate_def check_internal_auth_def py_not_def truthy_opt_def
        request_data_def get_json_silent_def py_or_def get_mode_def get_inputs_def
        get_model_name_def get_parameters_def py_get_def py_strip_def strip_def isspace_def
        bind_exn_def generation_config_def copy_key_def py_in_def lit_def)
  have t1: "resp_text ?r1 = None \<or> resp_text ?r1 = Some JNull \<or> resp_text ?r1 = Some (JStr [])"
    by simp
  have t2: "resp_text ?r2 = None \<or> resp_text ?r2 = Some JNull \<or> resp_text ?r2 = Some (JStr [])"
    by simp
  have t3: "resp_text ?r3 = None \<or> resp_text ?r3 = Some JNull \<or> resp_text ?r3 = Some (JStr [])"
    by simp
  let ?m = "JStr (lit ''gemini-1.5-flash-latest'')"
  let ?i = "lit ''Tell me a tale''"
  have w1: "snd (generate ?cfg (\<lambda>m i g. Returns ?r1) ?req) =
      Inr \<lparr> status = 502,
            payload = JsonBody (JObj [(lit ''error'', JStr (lit ''Empty response'')),
                                      (lit ''raw'', JObj [(lit ''candidates'', JArr [])])]) \<rparr>"
    using generate_empty_response [of ?cfg "\<lambda>m i g. Returns ?r1" ?req ?m ?i "[]" ?r1] calls t1
    by simp
  have w2: "snd (generate ?cfg (\<lambda>m i g. Returns ?r2) ?req) =
      Inr \<lparr> status = 502,
            payload = JsonBody (JObj [(lit ''error'', JStr (lit ''Empty response'')),
                                      (lit ''raw'', JNull)]) \<rparr>"
    using generate_empty_response [of ?cfg "\<lambda>m i g. Returns ?r2" ?req ?m ?i "[]" ?r2] calls t2
    by simp
  have w3: "snd (generate ?cfg (\<lambda>m i g. Returns ?r3) ?req) =
      Inr \<lparr> status = 502,
            payload = JsonBody (JObj [(lit ''error'', JStr (lit ''Empty response'')),
                                      (lit ''raw'', JObj [(lit ''blocked'', JBool True)])]) \<rparr>"
    using generate_empty_response [of ?cfg "\<lambda>m i g. Returns ?r3" ?req ?m ?i "[]" ?r3] calls t3
    by simp
  show ?thesis
    using w1 w2 w3 by blast
qed

end
